theory Spec2Isabelle
  imports Main "HOL-Library.Sublist"
begin

section \<open>Strings\<close>

text \<open>
  A JavaScript string is modelled as \<^typ>\<open>string\<close>: a list of code units, here restricted
  to the code units \<open>0x00\<close> .. \<open>0xFF\<close>. \<open>String.prototype.trim\<close> strips white space and
  line terminators from both ends; in that range these are TAB, LF, VT, FF, CR, SPACE and
  NBSP.
\<close>

definition isWhiteSpace :: "char \<Rightarrow> bool" where
  "isWhiteSpace c =
     (c = CHR 0x09 \<or> c = CHR 0x0A \<or> c = CHR 0x0B \<or> c = CHR 0x0C \<or> c = CHR 0x0D
      \<or> c = CHR 0x20 \<or> c = CHR 0xA0)"

definition trim :: "string \<Rightarrow> string" where
  "trim s = rev (dropWhile isWhiteSpace (rev (dropWhile isWhiteSpace s)))"

section \<open>Data model of the search endpoint\<close>

text \<open>
  The types of \<open>@/lib/types\<close>, as \<open>route.ts\<close> and the page component use them. An optional
  field is an \<^typ>\<open>'a option\<close>, \<open>None\<close> standing for \<open>undefined\<close> (and \<open>null\<close>). A number is an
  \<^typ>\<open>int\<close>. A field keeps its name in the source, with a prefix where the name is
  reserved or is a field of another record already (\<open>payload_keywords\<close> for \<open>keywords\<close>,
  \<open>target_id\<close> and \<open>item_id\<close> for \<open>id\<close>, \<open>item_url\<close> for \<open>url\<close>, \<open>filter_keyword\<close> for the
  \<open>keyword\<close> of the filter state).
\<close>

record KeywordSourceRow =
  keyword :: string
  sopCategory :: "string option"
  businessCategory :: "string option"
  companies :: "string list option"

record CompanyTarget =
  target_id :: string
  label :: string
  url :: string

datatype Preset = P24h | P3d | P7d | P30d

datatype TimeRangeOption =
    Preset Preset
  | Custom (range_from: string) (range_to: string)

record SearchPayload =
  payload_keywords :: "KeywordSourceRow list"
  companyTargets :: "CompanyTarget list"
  timeRange :: TimeRangeOption
  maxItems :: "int option"

record ConsolidatedNewsItem =
  item_id :: string
  title :: string
  source :: string
  item_url :: string
  publishedAt :: string
  summary :: string
  authenticScore :: int
  marketImpactScore :: int
  keywordMatches :: "string list"
  companyMatches :: "string list"
  item_sopCategory :: "string option"
  item_businessCategory :: "string option"

section \<open>The handler \<open>POST /api/search\<close>\<close>

text \<open>
  A thrown value is its message. \<open>request.json()\<close> either throws or yields the payload, which
  the handler takes to be a \<open>SearchPayload\<close>; \<open>gatherNews\<close> (of \<open>@/lib/news\<close>) is a parameter
  of the handler: it either throws or returns the result list.
\<close>

type_synonym exn = string

type_synonym Request = "exn + SearchPayload"

type_synonym GatherArgs = "KeywordSourceRow list \<times> CompanyTarget list \<times> TimeRangeOption \<times> int"

type_synonym GatherNews =
  "KeywordSourceRow list \<Rightarrow> CompanyTarget list \<Rightarrow> TimeRangeOption \<Rightarrow> int
     \<Rightarrow> exn + ConsolidatedNewsItem list"

datatype ResponseBody =
    ResultsBody (results: "ConsolidatedNewsItem list")
  | ErrorBody (error: string)

record Response =
  status :: nat
  body :: ResponseBody

text \<open>
  What one run of the handler does: the calls of \<open>gatherNews\<close> it made (with their
  arguments), the lines it wrote with \<open>console.error\<close>, and the response it returned.
\<close>

record Handled =
  invocations :: "GatherArgs list"
  logged :: "(string \<times> exn) list"
  response :: Response

definition failureResponse :: Response where
  "failureResponse = \<lparr>status = 500, body = ErrorBody ''Unable to gather news results.''\<rparr>"

definition POST :: "GatherNews \<Rightarrow> Request \<Rightarrow> Handled" where
  "POST gatherNews request =
     (case request of
        Inl err \<Rightarrow>
          \<lparr>invocations = [], logged = [(''Failed to run search'', err)],
           response = failureResponse\<rparr>
      | Inr payload \<Rightarrow>
          (let kws = filter (\<lambda>kw. length (trim (keyword kw)) > 0) (payload_keywords payload);
               targets = filter (\<lambda>target. length (trim (url target)) > 0)
                           (companyTargets payload);
               cap = (case maxItems payload of None \<Rightarrow> 100 | Some n \<Rightarrow> n)
           in case gatherNews kws targets (timeRange payload) cap of
                Inl err \<Rightarrow>
                  \<lparr>invocations = [(kws, targets, timeRange payload, cap)],
                   logged = [(''Failed to run search'', err)],
                   response = failureResponse\<rparr>
              | Inr res \<Rightarrow>
                  \<lparr>invocations = [(kws, targets, timeRange payload, cap)],
                   logged = [],
                   response = \<lparr>status = 200, body = ResultsBody res\<rparr>\<rparr>))"

text \<open>
  Stand-ins for \<open>gatherNews\<close> in the examples: a pipeline that returns the given list
  whatever it is asked, and one that throws the given message.
\<close>

definition returningPipeline :: "ConsolidatedNewsItem list \<Rightarrow> GatherNews" where
  "returningPipeline res kws targets tr cap = Inr res"

definition throwingPipeline :: "exn \<Rightarrow> GatherNews" where
  "throwingPipeline msg kws targets tr cap = Inl msg"

section \<open>The view layer: \<open>filteredResults\<close> and the newsletter preview\<close>

text \<open>
  \<open>String.prototype.toLowerCase\<close> on the code units \<open>0x00\<close> .. \<open>0xFF\<close>: the letters
  \<open>A\<close> .. \<open>Z\<close> and \<open>0xC0\<close> .. \<open>0xDE\<close> (the multiplication sign \<open>0xD7\<close> apart) move up
  by \<open>0x20\<close>. \<open>haystack.includes(needle)\<close> holds when \<open>needle\<close> occurs in \<open>haystack\<close> as
  a contiguous run.
\<close>

definition toLowerCaseChar :: "char \<Rightarrow> char" where
  "toLowerCaseChar c =
     (let n = (of_char c :: nat)
      in if (65 \<le> n \<and> n \<le> 90) \<or> (192 \<le> n \<and> n \<le> 222 \<and> n \<noteq> 215)
         then char_of (n + 32) else c)"

definition toLowerCase :: "string \<Rightarrow> string" where
  "toLowerCase s = map toLowerCaseChar s"

definition stringIncludes :: "string \<Rightarrow> string \<Rightarrow> bool" where
  "stringIncludes haystack needle = sublist needle haystack"

datatype TimeWindow = WAll | W24h | W3d | W7d

record FiltersState =
  filter_keyword :: string
  company :: string
  searchTerm :: string
  minAuthentic :: int
  minImpact :: int
  timeWindow :: TimeWindow

definition EMPTY_FILTERS :: FiltersState where
  "EMPTY_FILTERS =
     \<lparr>filter_keyword = ''all'', company = ''all'', searchTerm = [],
      minAuthentic = 0, minImpact = 0, timeWindow = WAll\<rparr>"

definition windowLimit :: "TimeWindow \<Rightarrow> int" where
  "windowLimit w =
     (if w = W24h then 24 * 60 * 60 * 1000
      else if w = W3d then 3 * 24 * 60 * 60 * 1000
      else 7 * 24 * 60 * 60 * 1000)"

text \<open>
  The callback of \<open>results.filter\<close>. \<open>getTime s\<close> is \<open>new Date(s).getTime()\<close>, with \<open>None\<close>
  for \<open>NaN\<close> (an invalid date); \<open>now\<close> is what \<open>Date.now()\<close> reads while the callback runs
  on this item. A comparison with \<open>NaN\<close> is false, so an item whose date does not parse is
  not dropped by the time window.
\<close>

definition keepItem ::
  "(string \<Rightarrow> int option) \<Rightarrow> int \<Rightarrow> FiltersState \<Rightarrow> ConsolidatedNewsItem \<Rightarrow> bool" where
  "keepItem getTime now filters item =
     (if filter_keyword filters \<noteq> ''all''
         \<and> \<not> (filter_keyword filters \<in> set (keywordMatches item)) then False
      else if company filters \<noteq> ''all''
         \<and> \<not> (company filters \<in> set (companyMatches item)) then False
      else if length (trim (searchTerm filters)) > 0
         \<and> \<not> stringIncludes
               (toLowerCase (title item @ '' '' @ summary item @ '' '' @ source item))
               (toLowerCase (trim (searchTerm filters))) then False
      else if authenticScore item < minAuthentic filters then False
      else if marketImpactScore item < minImpact filters then False
      else if timeWindow filters \<noteq> WAll
         \<and> (case getTime (publishedAt item) of
               None \<Rightarrow> False
             | Some published \<Rightarrow> now - published > windowLimit (timeWindow filters))
        then False
      else True)"

text \<open>
  \<open>filteredResults\<close>: the items the callback keeps, in the order of \<open>results\<close>. \<open>clock i\<close> is
  the reading of \<open>Date.now()\<close> at the item of index \<open>i\<close>.
\<close>

definition filteredResults ::
  "(string \<Rightarrow> int option) \<Rightarrow> (nat \<Rightarrow> int) \<Rightarrow> FiltersState
     \<Rightarrow> ConsolidatedNewsItem list \<Rightarrow> ConsolidatedNewsItem list" where
  "filteredResults getTime clock filters res =
     map snd (filter (\<lambda>(i, item). keepItem getTime (clock i) filters item) (enumerate 0 res))"

text \<open>
  \<open>Array.prototype.slice(start, end)\<close>: a negative index counts from the end, and both
  indices are clamped to the array.
\<close>

definition slice :: "int \<Rightarrow> int \<Rightarrow> 'a list \<Rightarrow> 'a list" where
  "slice start fin xs =
     (let len = int (length xs);
          k = (if start < 0 then max (len + start) 0 else min start len);
          final = (if fin < 0 then max (len + fin) 0 else min fin len)
      in take (nat (final - k)) (drop (nat k) xs))"

text \<open>
  The body of the newsletter preview table: one row per item of
  \<open>filteredResults.slice(0, 12)\<close>, keyed \<open>newsletter-<id>\<close>. The cells of a row (one per
  selected column) are not modelled; a row is its key and the item it shows.
\<close>

definition previewRows :: "ConsolidatedNewsItem list \<Rightarrow> (string \<times> ConsolidatedNewsItem) list" where
  "previewRows filtered = map (\<lambda>item. (''newsletter-'' @ item_id item, item)) (slice 0 12 filtered)"

section \<open>The pipeline \<open>gatherNews\<close>\<close>

text \<open>
  \<open>gatherNews\<close> of \<open>@/lib/news\<close> is not among the sources. Every definition of this section
  is modelled from the specification (sections 3, 4 and 7): validation, then Query Planner
  and Source Fetchers, Normalizer, Deduplicator, Scorer, Aggregator. An instant is a number
  of milliseconds since the epoch. What the specification leaves to collaborators or to
  heuristics is a parameter of the run: \<open>fetchAll\<close> (planner and fetchers: the raw records
  gathered for the rows, targets and window, in the order of their originating keyword
  rows), \<open>keyOf\<close> (the merge key of a record: its normalised URL, or else its title signature
  with its day), \<open>idOf\<close> (the deterministic id of a record), \<open>authenticity\<close> and
  \<open>marketImpact\<close> (the two scoring heuristics).
\<close>

text \<open>
  Modelled from the spec: the \<open>TimeRange\<close> that \<open>gatherNews\<close> receives (section 3): a named
  preset, or an explicit pair \<open>from\<close>, \<open>to\<close> of instants.
\<close>

datatype TimeRange =
    Named Preset
  | Explicit int int

text \<open>
  Modelled from the spec: the \<open>RawRecord\<close> a fetcher of \<open>gatherNews\<close> yields (section 3),
  with its provenance: the keyword rows and the company labels it was retrieved for.
\<close>

record RawRecord =
  raw_title :: string
  raw_url :: string
  raw_publishedAt :: "int option"
  raw_sourceName :: string
  raw_summary :: string
  raw_keywords :: "KeywordSourceRow list"
  raw_companies :: "string list"

text \<open>
  Modelled from the spec: the \<open>ConsolidatedNewsItem\<close> inside \<open>gatherNews\<close> (section 3), its
  \<open>publishedAt\<close> an instant.
\<close>

record NewsItem =
  news_id :: string
  news_title :: string
  news_source :: string
  news_url :: string
  news_publishedAt :: int
  news_summary :: string
  news_authenticScore :: int
  news_marketImpactScore :: int
  news_keywordMatches :: "string list"
  news_companyMatches :: "string list"
  news_sopCategory :: "string option"
  news_businessCategory :: "string option"

text \<open>
  Modelled from the spec: the validation failures of \<open>gatherNews\<close> (section 7 (d)).
\<close>

datatype ValidationFailure = EmptyKeywordList | EmptyCompanyList | InvalidTimeRange

text \<open>
  Modelled from the spec: the invariant of a \<open>TimeRange\<close> checked by \<open>gatherNews\<close>
  (section 3): a custom range has \<open>from \<le> to\<close>.
\<close>

fun validRange :: "TimeRange \<Rightarrow> bool" where
  "validRange (Named p) = True"
| "validRange (Explicit a b) = (a \<le> b)"

text \<open>
  Modelled from the spec: the validation of \<open>gatherNews\<close> (section 7 (d)): an empty keyword
  list, an empty company list and an invalid time range are failures.
\<close>

definition validateRequest ::
  "KeywordSourceRow list \<Rightarrow> CompanyTarget list \<Rightarrow> TimeRange \<Rightarrow> ValidationFailure option" where
  "validateRequest kws targets requested =
     (if kws = [] then Some EmptyKeywordList
      else if targets = [] then Some EmptyCompanyList
      else if \<not> validRange requested then Some InvalidTimeRange
      else None)"

text \<open>
  Modelled from the spec: the span that a preset of \<open>gatherNews\<close> names (section 3), in
  milliseconds.
\<close>

fun presetDuration :: "Preset \<Rightarrow> int" where
  "presetDuration P24h = 24 * 60 * 60 * 1000"
| "presetDuration P3d = 3 * 24 * 60 * 60 * 1000"
| "presetDuration P7d = 7 * 24 * 60 * 60 * 1000"
| "presetDuration P30d = 30 * 24 * 60 * 60 * 1000"

text \<open>
  Modelled from the spec: the window \<open>gatherNews\<close> derives from a time range (section 8):
  the pair of a custom range, or the span of the preset, ending now.
\<close>

fun windowOf :: "int \<Rightarrow> TimeRange \<Rightarrow> int \<times> int" where
  "windowOf now (Named p) = (now - presetDuration p, now)"
| "windowOf now (Explicit a b) = (a, b)"

text \<open>
  Modelled from the spec: an instant falls within a window of \<open>gatherNews\<close> (section 8)
  when it is between its two ends.
\<close>

definition inWindow :: "int \<times> int \<Rightarrow> int \<Rightarrow> bool" where
  "inWindow w t = (fst w \<le> t \<and> t \<le> snd w)"

text \<open>
  Modelled from the spec: the Normalizer of \<open>gatherNews\<close> on one record (section 4.3). A
  record with no parseable date, a date outside the window, or neither title nor URL is
  dropped; the categories are those of the originating keyword row when there is exactly
  one.
\<close>

definition normalizeRecord ::
  "(RawRecord \<Rightarrow> string) \<Rightarrow> int \<times> int \<Rightarrow> RawRecord \<Rightarrow> NewsItem option" where
  "normalizeRecord idOf window r =
     (case raw_publishedAt r of
        None \<Rightarrow> None
      | Some t \<Rightarrow>
          if \<not> inWindow window t then None
          else if raw_title r = [] \<and> raw_url r = [] then None
          else Some
            \<lparr>news_id = idOf r, news_title = raw_title r, news_source = raw_sourceName r,
             news_url = raw_url r, news_publishedAt = t, news_summary = raw_summary r,
             news_authenticScore = 0, news_marketImpactScore = 0,
             news_keywordMatches = remdups (map keyword (raw_keywords r)),
             news_companyMatches = remdups (raw_companies r),
             news_sopCategory =
               (case raw_keywords r of [row] \<Rightarrow> sopCategory row | _ \<Rightarrow> None),
             news_businessCategory =
               (case raw_keywords r of [row] \<Rightarrow> businessCategory row | _ \<Rightarrow> None)\<rparr>)"

text \<open>
  Modelled from the spec: the Normalizer of \<open>gatherNews\<close> on all records (section 4.3): the
  candidates that are not dropped, each paired with its merge key.
\<close>

definition normalizer ::
  "(RawRecord \<Rightarrow> string) \<Rightarrow> (RawRecord \<Rightarrow> string) \<Rightarrow> int \<times> int \<Rightarrow> RawRecord list
     \<Rightarrow> (string \<times> NewsItem) list" where
  "normalizer keyOf idOf window rs =
     List.map_filter (\<lambda>r. map_option (Pair (keyOf r)) (normalizeRecord idOf window r)) rs"

text \<open>
  Modelled from the spec: the merge of two candidates of \<open>gatherNews\<close> with one merge key
  (section 4.4): the match sets are united, the longer summary is kept, and each category
  keeps its first value that is not null.
\<close>

definition mergeItems :: "NewsItem \<Rightarrow> NewsItem \<Rightarrow> NewsItem" where
  "mergeItems a b =
     a\<lparr>news_keywordMatches := List.union (news_keywordMatches a) (news_keywordMatches b),
       news_companyMatches := List.union (news_companyMatches a) (news_companyMatches b),
       news_summary :=
         (if length (news_summary a) < length (news_summary b) then news_summary b
          else news_summary a),
       news_sopCategory :=
         (case news_sopCategory a of None \<Rightarrow> news_sopCategory b | Some c \<Rightarrow> Some c),
       news_businessCategory :=
         (case news_businessCategory a of None \<Rightarrow> news_businessCategory b
          | Some c \<Rightarrow> Some c)\<rparr>"

text \<open>
  Modelled from the spec: one step of the Deduplicator of \<open>gatherNews\<close> (section 4.4): a
  candidate whose merge key is already present is merged into the item that holds it, and
  any other candidate is added after the items merged so far.
\<close>

fun absorb :: "string \<times> NewsItem \<Rightarrow> (string \<times> NewsItem) list \<Rightarrow> (string \<times> NewsItem) list" where
  "absorb c [] = [c]"
| "absorb c (m # ms) =
     (if fst m = fst c then (fst m, mergeItems (snd m) (snd c)) # ms else m # absorb c ms)"

text \<open>
  Modelled from the spec: the Deduplicator of \<open>gatherNews\<close> (section 4.4), taking the
  candidates in provenance order.
\<close>

definition deduplicator :: "(string \<times> NewsItem) list \<Rightarrow> NewsItem list" where
  "deduplicator cs = map snd (foldl (\<lambda>merged c. absorb c merged) [] cs)"

text \<open>
  Modelled from the spec: the clamp of a score of \<open>gatherNews\<close> to 0 .. 100 (section 4.5).
\<close>

definition clampScore :: "int \<Rightarrow> int" where
  "clampScore x = max 0 (min 100 x)"

text \<open>
  Modelled from the spec: the Scorer of \<open>gatherNews\<close> (section 4.5): the two heuristics,
  each clamped.
\<close>

definition scorer :: "(NewsItem \<Rightarrow> int) \<Rightarrow> (NewsItem \<Rightarrow> int) \<Rightarrow> NewsItem \<Rightarrow> NewsItem" where
  "scorer authenticity marketImpact item =
     item\<lparr>news_authenticScore := clampScore (authenticity item),
          news_marketImpactScore := clampScore (marketImpact item)\<rparr>"

text \<open>
  Modelled from the spec: the ascending order of ids in the Aggregator of \<open>gatherNews\<close>
  (section 4.6), code unit by code unit.
\<close>

fun stringLeq :: "string \<Rightarrow> string \<Rightarrow> bool" where
  "stringLeq [] t = True"
| "stringLeq (c # s) [] = False"
| "stringLeq (c # s) (d # t) =
     ((of_char c :: nat) < of_char d \<or> (c = d \<and> stringLeq s t))"

text \<open>
  Modelled from the spec: the order of the Aggregator of \<open>gatherNews\<close> (section 4.6):
  \<open>publishedAt\<close> descending, ties by \<open>marketImpactScore\<close> descending and then by \<open>id\<close>
  ascending.
\<close>

definition ranksBefore :: "NewsItem \<Rightarrow> NewsItem \<Rightarrow> bool" where
  "ranksBefore a b =
     (news_publishedAt a > news_publishedAt b
      \<or> (news_publishedAt a = news_publishedAt b
          \<and> (news_marketImpactScore a > news_marketImpactScore b
              \<or> (news_marketImpactScore a = news_marketImpactScore b
                  \<and> stringLeq (news_id a) (news_id b)))))"

text \<open>
  Modelled from the spec: the sort of the Aggregator of \<open>gatherNews\<close> (section 4.6), one
  insertion.
\<close>

fun insertRanked :: "NewsItem \<Rightarrow> NewsItem list \<Rightarrow> NewsItem list" where
  "insertRanked x [] = [x]"
| "insertRanked x (y # ys) =
     (if ranksBefore x y then x # y # ys else y # insertRanked x ys)"

text \<open>
  Modelled from the spec: the sort of the Aggregator of \<open>gatherNews\<close> (section 4.6).
\<close>

definition sortRanked :: "NewsItem list \<Rightarrow> NewsItem list" where
  "sortRanked xs = foldr insertRanked xs []"

text \<open>
  Modelled from the spec: the Aggregator of \<open>gatherNews\<close> (section 4.6): sort, then
  truncate to the first \<open>maxItems\<close>, a negative \<open>maxItems\<close> counting as zero.
\<close>

definition aggregator :: "int \<Rightarrow> NewsItem list \<Rightarrow> NewsItem list" where
  "aggregator cap xs = take (nat (if cap < 0 then 0 else cap)) (sortRanked xs)"

text \<open>
  Modelled from the spec: \<open>gatherNews\<close> itself, one run. Blank rows and targets are filtered
  again inside the pipeline (section 3); a validation failure is returned before \<open>fetchAll\<close>
  is asked anything (section 7 (d)); then the stages run in the order of section 2.
\<close>

definition gatherNewsSpec ::
  "(KeywordSourceRow list \<Rightarrow> CompanyTarget list \<Rightarrow> int \<times> int \<Rightarrow> RawRecord list)
     \<Rightarrow> (RawRecord \<Rightarrow> string) \<Rightarrow> (RawRecord \<Rightarrow> string)
     \<Rightarrow> (NewsItem \<Rightarrow> int) \<Rightarrow> (NewsItem \<Rightarrow> int) \<Rightarrow> int
     \<Rightarrow> KeywordSourceRow list \<Rightarrow> CompanyTarget list \<Rightarrow> TimeRange \<Rightarrow> int
     \<Rightarrow> ValidationFailure + NewsItem list" where
  "gatherNewsSpec fetchAll keyOf idOf authenticity marketImpact now kws targets requested cap =
     (let rows = filter (\<lambda>kw. length (trim (keyword kw)) > 0) kws;
          sites = filter (\<lambda>target. length (trim (url target)) > 0) targets
      in case validateRequest rows sites requested of
           Some failure \<Rightarrow> Inl failure
         | None \<Rightarrow>
             (let window = windowOf now requested;
                  candidates = normalizer keyOf idOf window (fetchAll rows sites window);
                  merged = deduplicator candidates;
                  scored = map (scorer authenticity marketImpact) merged
              in Inr (aggregator cap scored)))"

section \<open>Example data\<close>

text \<open>
  Inputs for the examples: a result item with the given id, publication date
  and scores; a date parser that knows two dates; and a run of the pipeline in which the
  fetchers return five records: two about the same URL (one found through the keyword, one
  through the company target), one about another URL, one older than the window and one
  without a date.
\<close>

definition sampleItem :: "string \<Rightarrow> string \<Rightarrow> int \<Rightarrow> int \<Rightarrow> ConsolidatedNewsItem" where
  "sampleItem ident published authentic impact =
     \<lparr>item_id = ident, title = ''Biosimilar launch'', source = ''Example Wire'',
      item_url = ''https://example.com/'' @ ident, publishedAt = published,
      summary = ''A launch.'', authenticScore = authentic, marketImpactScore = impact,
      keywordMatches = [''biosimilar approval''], companyMatches = [''Amgen''],
      item_sopCategory = None, item_businessCategory = None\<rparr>"

definition sampleGetTime :: "string \<Rightarrow> int option" where
  "sampleGetTime s =
     (if s = ''1970-01-01T00:00:00.000Z'' then Some 0
      else if s = ''1970-01-02T00:00:00.000Z'' then Some 86400000
      else None)"

definition clockAt :: "int \<Rightarrow> nat \<Rightarrow> int" where
  "clockAt t i = t"

definition sampleRow :: KeywordSourceRow where
  "sampleRow =
     \<lparr>keyword = ''biosimilar approval'', sopCategory = Some ''Regulatory'',
      businessCategory = None, companies = None\<rparr>"

definition sampleTarget :: CompanyTarget where
  "sampleTarget = \<lparr>target_id = ''t1'', label = ''Amgen'', url = ''https://amgen.com''\<rparr>"

text \<open>
  A further stand-in for \<open>gatherNews\<close>, one whose answer shows what it was given: one item
  for each keyword row and then one for each company target it receives (the id of the item
  is the keyword, or the url), cut to the \<open>maxItems\<close> it receives.
\<close>

definition echoPipeline :: GatherNews where
  "echoPipeline kws targets tr cap =
     Inr (take (nat cap)
            (map (\<lambda>kw. sampleItem (keyword kw) [] 50 50) kws @
             map (\<lambda>target. sampleItem (url target) [] 50 50) targets))"

definition sampleRecord ::
  "string \<Rightarrow> int option \<Rightarrow> KeywordSourceRow list \<Rightarrow> string list \<Rightarrow> RawRecord" where
  "sampleRecord address published rows labels =
     \<lparr>raw_title = ''Biosimilar approved'', raw_url = address, raw_publishedAt = published,
      raw_sourceName = ''Example Wire'', raw_summary = ''Approved.'',
      raw_keywords = rows, raw_companies = labels\<rparr>"

definition sampleFetch ::
  "KeywordSourceRow list \<Rightarrow> CompanyTarget list \<Rightarrow> int \<times> int \<Rightarrow> RawRecord list" where
  "sampleFetch rows sites window =
     [sampleRecord ''https://amgen.com/a'' (Some 800000000) rows [],
      sampleRecord ''https://amgen.com/a'' (Some 800000000) [] (map label sites),
      sampleRecord ''https://amgen.com/b'' (Some 900000000) rows [],
      sampleRecord ''https://amgen.com/c'' (Some 1000) rows [],
      sampleRecord ''https://amgen.com/d'' None rows []]"

definition sampleScore :: "NewsItem \<Rightarrow> int" where
  "sampleScore item = 50 + 60 * int (length (news_companyMatches item))"

definition sampleRun :: "TimeRange \<Rightarrow> int \<Rightarrow> ValidationFailure + NewsItem list" where
  "sampleRun requested cap =
     gatherNewsSpec sampleFetch raw_url raw_url sampleScore sampleScore 1000000000
       [sampleRow] [sampleTarget] requested cap"

section \<open>Facts about \<open>trim\<close>\<close>

lemma trim_Nil_iff: "trim s = [] \<longleftrightarrow> (\<forall>c\<in>set s. isWhiteSpace c)"
proof
  assume empty: "trim s = []"
  show "\<forall>c\<in>set s. isWhiteSpace c"
  proof (cases "dropWhile isWhiteSpace s")
    case Nil
    then show ?thesis by simp
  next
    case (Cons c cs)
    then have "\<not> isWhiteSpace c"
      by (metis hd_dropWhile list.sel(1) list.distinct(1))
    moreover from empty have "\<forall>x\<in>set (dropWhile isWhiteSpace s). isWhiteSpace x"
      by (simp add: trim_def)
    ultimately show ?thesis using Cons by simp
  qed
next
  assume "\<forall>c\<in>set s. isWhiteSpace c"
  then show "trim s = []"
    by (auto simp: trim_def dest: set_dropWhileD)
qed

lemma trim_nonempty_iff: "length (trim s) > 0 \<longleftrightarrow> (\<exists>c\<in>set s. \<not> isWhiteSpace c)"
  using trim_Nil_iff [of s] by auto

section \<open>The handler: what it passes to the pipeline and what it answers\<close>

lemma POST_invocations:
  "invocations (POST g (Inr p)) =
     [(filter (\<lambda>kw. length (trim (keyword kw)) > 0) (payload_keywords p),
       filter (\<lambda>target. length (trim (url target)) > 0) (companyTargets p),
       timeRange p,
       case maxItems p of None \<Rightarrow> 100 | Some n \<Rightarrow> n)]"
  by (simp add: POST_def Let_def split: sum.splits)

lemma POST_response:
  "response (POST g (Inr p)) =
     (case g (filter (\<lambda>kw. length (trim (keyword kw)) > 0) (payload_keywords p))
             (filter (\<lambda>target. length (trim (url target)) > 0) (companyTargets p))
             (timeRange p)
             (case maxItems p of None \<Rightarrow> 100 | Some n \<Rightarrow> n) of
        Inl err \<Rightarrow> failureResponse
      | Inr res \<Rightarrow> \<lparr>status = 200, body = ResultsBody res\<rparr>)"
  by (simp add: POST_def Let_def split: sum.splits)

text \<open>
  Claim C1, as stated: when \<open>maxItems\<close> is absent or zero the pipeline is invoked with
  \<open>maxItems = 100\<close>. The handler uses \<open>payload.maxItems ?? 100\<close>, which replaces only
  \<open>undefined\<close> and \<open>null\<close>: a body with \<open>maxItems = 0\<close> reaches the pipeline with \<open>0\<close>. With
  one keyword row, the pipeline \<open>echoPipeline\<close> is invoked with \<open>0\<close> and so returns no item,
  where invoked with \<open>100\<close> it returns one; the response carries no item.
\<close>

theorem POST_maxItems_zero_counterexample:
  "invocations (POST echoPipeline
      (Inr \<lparr>payload_keywords = [sampleRow], companyTargets = [], timeRange = Preset P7d,
            maxItems = Some 0\<rparr>)) = [([sampleRow], [], Preset P7d, 0)] \<and>
   response (POST echoPipeline
      (Inr \<lparr>payload_keywords = [sampleRow], companyTargets = [], timeRange = Preset P7d,
            maxItems = Some 0\<rparr>)) = \<lparr>status = 200, body = ResultsBody []\<rparr> \<and>
   echoPipeline [sampleRow] [] (Preset P7d) 0 = Inr [] \<and>
   echoPipeline [sampleRow] [] (Preset P7d) 100 =
     Inr [sampleItem ''biosimilar approval'' [] 50 50]"
  by (simp add: POST_invocations POST_response echoPipeline_def sampleRow_def trim_def
      isWhiteSpace_def)

text \<open>
  Claim C1, amended: when \<open>maxItems\<close> is absent (\<open>undefined\<close> or \<open>null\<close>) the pipeline is
  invoked, once, with \<open>maxItems = 100\<close>; when it is present, zero included, the pipeline is
  invoked with the value of the body. Whatever the pipeline \<open>g\<close> is, the response is made
  from \<open>g\<close> applied to that value (with the filtered lists and the time range), and the one
  recorded call has the same arguments.
\<close>

theorem POST_maxItems_nullish_default:
  "(maxItems p = None \<longrightarrow>
      invocations (POST g (Inr p)) =
        [(filter (\<lambda>kw. length (trim (keyword kw)) > 0) (payload_keywords p),
          filter (\<lambda>target. length (trim (url target)) > 0) (companyTargets p),
          timeRange p, 100)] \<and>
      response (POST g (Inr p)) =
        (case g (filter (\<lambda>kw. length (trim (keyword kw)) > 0) (payload_keywords p))
                (filter (\<lambda>target. length (trim (url target)) > 0) (companyTargets p))
                (timeRange p) 100 of
           Inl err \<Rightarrow> \<lparr>status = 500, body = ErrorBody ''Unable to gather news results.''\<rparr>
         | Inr res \<Rightarrow> \<lparr>status = 200, body = ResultsBody res\<rparr>)) \<and>
   (\<forall>n. maxItems p = Some n \<longrightarrow>
      invocations (POST g (Inr p)) =
        [(filter (\<lambda>kw. length (trim (keyword kw)) > 0) (payload_keywords p),
          filter (\<lambda>target. length (trim (url target)) > 0) (companyTargets p),
          timeRange p, n)] \<and>
      response (POST g (Inr p)) =
        (case g (filter (\<lambda>kw. length (trim (keyword kw)) > 0) (payload_keywords p))
                (filter (\<lambda>target. length (trim (url target)) > 0) (companyTargets p))
                (timeRange p) n of
           Inl err \<Rightarrow> \<lparr>status = 500, body = ErrorBody ''Unable to gather news results.''\<rparr>
         | Inr res \<Rightarrow> \<lparr>status = 200, body = ResultsBody res\<rparr>))"
  by (simp add: POST_invocations POST_response failureResponse_def split: sum.splits)

theorem POST_maxItems_nullish_default_witness:
  "invocations (POST echoPipeline
      (Inr \<lparr>payload_keywords = [sampleRow], companyTargets = [], timeRange = Preset P7d,
            maxItems = None\<rparr>)) = [([sampleRow], [], Preset P7d, 100)] \<and>
   response (POST echoPipeline
      (Inr \<lparr>payload_keywords = [sampleRow], companyTargets = [], timeRange = Preset P7d,
            maxItems = None\<rparr>)) =
     \<lparr>status = 200, body = ResultsBody [sampleItem ''biosimilar approval'' [] 50 50]\<rparr> \<and>
   invocations (POST echoPipeline
      (Inr \<lparr>payload_keywords = [sampleRow, sampleRow], companyTargets = [],
            timeRange = Preset P7d, maxItems = Some 1\<rparr>)) =
     [([sampleRow, sampleRow], [], Preset P7d, 1)] \<and>
   response (POST echoPipeline
      (Inr \<lparr>payload_keywords = [sampleRow, sampleRow], companyTargets = [],
            timeRange = Preset P7d, maxItems = Some 1\<rparr>)) =
     \<lparr>status = 200, body = ResultsBody [sampleItem ''biosimilar approval'' [] 50 50]\<rparr>"
  using
    POST_maxItems_nullish_default [where g = echoPipeline and
      p = "\<lparr>payload_keywords = [sampleRow], companyTargets = [], timeRange = Preset P7d,
            maxItems = None\<rparr>"]
    POST_maxItems_nullish_default [where g = echoPipeline and
      p = "\<lparr>payload_keywords = [sampleRow, sampleRow], companyTargets = [],
            timeRange = Preset P7d, maxItems = Some 1\<rparr>"]
  by (simp add: echoPipeline_def sampleRow_def trim_def isWhiteSpace_def)

text \<open>
  Claim C2: for every request (a body that does not parse included) and every behaviour of
  the pipeline, the response is either status 200 with the body \<open>{ results }\<close> or status 500
  with the body \<open>{ error: "Unable to gather news results." }\<close>. The error string is this
  constant: the thrown value goes to \<open>console.error\<close> only.
\<close>

theorem POST_response_shape:
  "(\<exists>res. response (POST g req) = \<lparr>status = 200, body = ResultsBody res\<rparr>) \<or>
   response (POST g req) =
     \<lparr>status = 500, body = ErrorBody ''Unable to gather news results.''\<rparr>"
  by (auto simp: POST_def Let_def failureResponse_def split: sum.splits)

theorem POST_response_shape_witness:
  "response (POST (throwingPipeline ''TypeError: fetch failed at news.ts:42'')
      (Inr \<lparr>payload_keywords = [], companyTargets = [], timeRange = Preset P24h,
            maxItems = None\<rparr>)) =
     \<lparr>status = 500, body = ErrorBody ''Unable to gather news results.''\<rparr>"
  using POST_response_shape [where g = "throwingPipeline ''TypeError: fetch failed at news.ts:42''"
      and req = "Inr \<lparr>payload_keywords = [], companyTargets = [], timeRange = Preset P24h,
            maxItems = None\<rparr>"]
  by (simp add: POST_response throwingPipeline_def failureResponse_def)

text \<open>
  Claim C3: the pipeline is invoked with exactly the keyword rows whose keyword has a
  character that is not white space, and exactly the company targets whose url has one, each
  list in its order and with its repetitions: every blank row and target is removed, and
  no other. Whatever the pipeline \<open>g\<close> is, the response is made from \<open>g\<close> applied to these
  two lists (with the time range and \<open>maxItems\<close>), and the one recorded call has the same
  arguments.
\<close>

theorem POST_removes_blank_rows:
  "invocations (POST g (Inr p)) =
     [(filter (\<lambda>kw. \<exists>c\<in>set (keyword kw). \<not> isWhiteSpace c) (payload_keywords p),
       filter (\<lambda>target. \<exists>c\<in>set (url target). \<not> isWhiteSpace c) (companyTargets p),
       timeRange p,
       case maxItems p of None \<Rightarrow> 100 | Some n \<Rightarrow> n)] \<and>
   response (POST g (Inr p)) =
     (case g (filter (\<lambda>kw. \<exists>c\<in>set (keyword kw). \<not> isWhiteSpace c) (payload_keywords p))
             (filter (\<lambda>target. \<exists>c\<in>set (url target). \<not> isWhiteSpace c) (companyTargets p))
             (timeRange p)
             (case maxItems p of None \<Rightarrow> 100 | Some n \<Rightarrow> n) of
        Inl err \<Rightarrow> \<lparr>status = 500, body = ErrorBody ''Unable to gather news results.''\<rparr>
      | Inr res \<Rightarrow> \<lparr>status = 200, body = ResultsBody res\<rparr>)"
  using trim_nonempty_iff
  by (simp add: POST_invocations POST_response failureResponse_def split: sum.splits)

theorem POST_removes_blank_rows_witness:
  "invocations (POST echoPipeline
      (Inr \<lparr>payload_keywords =
              [\<lparr>keyword = ''  '', sopCategory = None, businessCategory = None,
                companies = None\<rparr>,
               \<lparr>keyword = '' biosimilar approval '', sopCategory = None,
                businessCategory = None, companies = None\<rparr>,
               \<lparr>keyword = [], sopCategory = None, businessCategory = None,
                companies = None\<rparr>],
            companyTargets =
              [\<lparr>target_id = ''t1'', label = ''Amgen'', url = ''https://amgen.com''\<rparr>,
               \<lparr>target_id = ''t2'', label = ''Empty'', url = '' ''\<rparr>],
            timeRange = Preset P7d, maxItems = Some 5\<rparr>)) =
     [([\<lparr>keyword = '' biosimilar approval '', sopCategory = None,
         businessCategory = None, companies = None\<rparr>],
       [\<lparr>target_id = ''t1'', label = ''Amgen'', url = ''https://amgen.com''\<rparr>],
       Preset P7d, 5)] \<and>
   response (POST echoPipeline
      (Inr \<lparr>payload_keywords =
              [\<lparr>keyword = ''  '', sopCategory = None, businessCategory = None,
                companies = None\<rparr>,
               \<lparr>keyword = '' biosimilar approval '', sopCategory = None,
                businessCategory = None, companies = None\<rparr>,
               \<lparr>keyword = [], sopCategory = None, businessCategory = None,
                companies = None\<rparr>],
            companyTargets =
              [\<lparr>target_id = ''t1'', label = ''Amgen'', url = ''https://amgen.com''\<rparr>,
               \<lparr>target_id = ''t2'', label = ''Empty'', url = '' ''\<rparr>],
            timeRange = Preset P7d, maxItems = Some 5\<rparr>)) =
     \<lparr>status = 200,
      body = ResultsBody [sampleItem '' biosimilar approval '' [] 50 50,
                          sampleItem ''https://amgen.com'' [] 50 50]\<rparr>"
  using POST_removes_blank_rows [where g = echoPipeline and
      p = "\<lparr>payload_keywords =
              [\<lparr>keyword = ''  '', sopCategory = None, businessCategory = None,
                companies = None\<rparr>,
               \<lparr>keyword = '' biosimilar approval '', sopCategory = None,
                businessCategory = None, companies = None\<rparr>,
               \<lparr>keyword = [], sopCategory = None, businessCategory = None,
                companies = None\<rparr>],
            companyTargets =
              [\<lparr>target_id = ''t1'', label = ''Amgen'', url = ''https://amgen.com''\<rparr>,
               \<lparr>target_id = ''t2'', label = ''Empty'', url = '' ''\<rparr>],
            timeRange = Preset P7d, maxItems = Some 5\<rparr>"]
  by (simp add: isWhiteSpace_def echoPipeline_def)

text \<open>
  Claim C4, as stated: a request with an empty keyword list, an empty company-target list
  or an invalid time range gets a validation error and the pipeline is not run. The handler
  has no validation: with both lists empty and a custom range whose \<open>from\<close> is after its
  \<open>to\<close>, it invokes the pipeline; when the pipeline returns, the answer is status 200, and
  when the pipeline throws, it is the same generic status 500 as for any other fault.
\<close>

theorem POST_empty_lists_counterexample:
  "invocations (POST (returningPipeline [])
      (Inr \<lparr>payload_keywords = [], companyTargets = [],
            timeRange = Custom ''2024-02-01T00:00:00.000Z'' ''2024-01-01T00:00:00.000Z'',
            maxItems = Some 5\<rparr>)) =
     [([], [], Custom ''2024-02-01T00:00:00.000Z'' ''2024-01-01T00:00:00.000Z'', 5)] \<and>
   response (POST (returningPipeline [])
      (Inr \<lparr>payload_keywords = [], companyTargets = [],
            timeRange = Custom ''2024-02-01T00:00:00.000Z'' ''2024-01-01T00:00:00.000Z'',
            maxItems = Some 5\<rparr>)) =
     \<lparr>status = 200, body = ResultsBody []\<rparr> \<and>
   response (POST (throwingPipeline ''no keywords'')
      (Inr \<lparr>payload_keywords = [], companyTargets = [],
            timeRange = Custom ''2024-02-01T00:00:00.000Z'' ''2024-01-01T00:00:00.000Z'',
            maxItems = Some 5\<rparr>)) =
     \<lparr>status = 500, body = ErrorBody ''Unable to gather news results.''\<rparr>"
  by (simp add: POST_invocations POST_response returningPipeline_def throwingPipeline_def
      failureResponse_def)

text \<open>
  Claim C4, amended: the endpoint validates nothing. For every body that parses, whatever
  its lists and its time range, it invokes the pipeline exactly once, with the time range
  of the body unchanged; it answers status 200 with the pipeline's results when the
  pipeline returns and the generic status 500 when the pipeline throws, and no other
  status.
\<close>

theorem POST_always_runs_pipeline:
  "\<exists>kws targets cap.
     invocations (POST g (Inr p)) = [(kws, targets, timeRange p, cap)] \<and>
     response (POST g (Inr p)) =
       (case g kws targets (timeRange p) cap of
          Inl err \<Rightarrow> \<lparr>status = 500, body = ErrorBody ''Unable to gather news results.''\<rparr>
        | Inr res \<Rightarrow> \<lparr>status = 200, body = ResultsBody res\<rparr>) \<and>
     (status (response (POST g (Inr p))) = 200 \<or> status (response (POST g (Inr p))) = 500)"
  by (simp add: POST_invocations POST_response failureResponse_def split: sum.splits)

theorem POST_always_runs_pipeline_witness:
  "length (invocations (POST (returningPipeline [])
      (Inr \<lparr>payload_keywords = [], companyTargets = [],
            timeRange = Custom ''2024-02-01T00:00:00.000Z'' ''2024-01-01T00:00:00.000Z'',
            maxItems = None\<rparr>))) = 1 \<and>
   status (response (POST (returningPipeline [])
      (Inr \<lparr>payload_keywords = [], companyTargets = [],
            timeRange = Custom ''2024-02-01T00:00:00.000Z'' ''2024-01-01T00:00:00.000Z'',
            maxItems = None\<rparr>))) = 200"
  using POST_always_runs_pipeline [where g = "returningPipeline []" and
      p = "\<lparr>payload_keywords = [], companyTargets = [],
            timeRange = Custom ''2024-02-01T00:00:00.000Z'' ''2024-01-01T00:00:00.000Z'',
            maxItems = None\<rparr>"]
  by (auto simp: returningPipeline_def)

section \<open>The view layer\<close>

lemma keepItem_thresholds_mono:
  assumes "filter_keyword s = filter_keyword l" "company s = company l"
    "searchTerm s = searchTerm l" "timeWindow s = timeWindow l"
    "minAuthentic l \<le> minAuthentic s" "minImpact l \<le> minImpact s"
    "timeWindow l = WAll \<or> nowL \<le> nowS"
    "keepItem getTime nowS s item"
  shows "keepItem getTime nowL l item"
  using assms(5-8) unfolding keepItem_def assms(1-4)
  by (auto split: if_splits option.splits)

lemma filter_implied:
  assumes "\<And>p. p \<in> set xs \<Longrightarrow> P p \<Longrightarrow> Q p"
  shows "filter P xs = filter P (filter Q xs)"
  using assms by (induction xs) auto

text \<open>
  Claim C8, as stated: for a fixed result list and two filter states that differ only in
  that one has the greater thresholds, the list of the stricter state is a subset of the list
  of the looser state. When the time window is not \<open>all\<close> the callback reads \<open>Date.now()\<close>,
  and \<open>useMemo\<close> computes the list anew each time the filters change, so the two lists
  are computed at two readings of the clock. With the window \<open>24h\<close> and an item published at
  instant 0, the stricter state at reading 86400000 keeps the item and the looser state one
  millisecond later drops it.
\<close>

theorem filteredResults_monotone_counterexample:
  "\<not> set (filteredResults sampleGetTime (clockAt 86400000)
            (EMPTY_FILTERS\<lparr>minAuthentic := 60, minImpact := 10, timeWindow := W24h\<rparr>)
            [sampleItem ''a'' ''1970-01-01T00:00:00.000Z'' 70 50])
     \<subseteq> set (filteredResults sampleGetTime (clockAt 86400001)
            (EMPTY_FILTERS\<lparr>timeWindow := W24h\<rparr>)
            [sampleItem ''a'' ''1970-01-01T00:00:00.000Z'' 70 50])"
  by (simp add: filteredResults_def keepItem_def EMPTY_FILTERS_def sampleItem_def
      sampleGetTime_def clockAt_def windowLimit_def trim_def)

text \<open>
  Claim C8, amended: the filter is monotone in the two score thresholds when the looser list
  is not computed later than the stricter one. For one result list, if two filter states
  agree on keyword, company, search term and time window, the thresholds of the stricter
  state \<open>s\<close> are at least those of the looser state \<open>l\<close>, and either the time window is \<open>all\<close>
  or, item by item, the reading of \<open>Date.now()\<close> for the looser list is no later than the
  reading for the stricter list (the same reading for both is the first case of this), then
  every item the stricter state keeps is kept by the looser one; the stricter list is even
  a subsequence of the looser list.
\<close>

theorem filteredResults_monotone:
  assumes "filter_keyword s = filter_keyword l" "company s = company l"
    "searchTerm s = searchTerm l" "timeWindow s = timeWindow l"
    "minAuthentic l \<le> minAuthentic s" "minImpact l \<le> minImpact s"
    "timeWindow l = WAll \<or> (\<forall>i<length res. clockL i \<le> clockS i)"
  shows "set (filteredResults getTime clockS s res) \<subseteq> set (filteredResults getTime clockL l res)
     \<and> subseq (filteredResults getTime clockS s res) (filteredResults getTime clockL l res)"
proof -
  let ?S = "\<lambda>(i, item). keepItem getTime (clockS i) s item"
  let ?L = "\<lambda>(i, item). keepItem getTime (clockL i) l item"
  have "filter ?S (enumerate 0 res) = filter ?S (filter ?L (enumerate 0 res))"
  proof (rule filter_implied)
    fix p assume mem: "p \<in> set (enumerate 0 res)" and kept: "?S p"
    obtain i item where p: "p = (i, item)" by (cases p)
    from mem p have "i < length res" by (simp add: in_set_enumerate_eq)
    with assms(7) have "timeWindow l = WAll \<or> clockL i \<le> clockS i" by blast
    from keepItem_thresholds_mono [OF assms(1-6) this] kept p show "?L p" by simp
  qed
  then have eq: "filteredResults getTime clockS s res =
      map snd (filter ?S (filter ?L (enumerate 0 res)))"
    by (simp only: filteredResults_def)
  have sub: "subseq (filteredResults getTime clockS s res) (filteredResults getTime clockL l res)"
    unfolding eq unfolding filteredResults_def
    by (rule subseq_map) (rule subseq_filter_left)
  from sub show ?thesis by (auto elim: list_emb_set)
qed

theorem filteredResults_monotone_witness:
  "filteredResults sampleGetTime (clockAt 86400005)
      (EMPTY_FILTERS\<lparr>minAuthentic := 60, minImpact := 10, timeWindow := W24h\<rparr>)
      [sampleItem ''a'' ''1970-01-01T00:00:00.000Z'' 70 50,
       sampleItem ''b'' ''1970-01-02T00:00:00.000Z'' 50 50,
       sampleItem ''d'' ''1970-01-02T00:00:00.000Z'' 70 50] =
     [sampleItem ''d'' ''1970-01-02T00:00:00.000Z'' 70 50] \<and>
   filteredResults sampleGetTime (clockAt 86400000)
      (EMPTY_FILTERS\<lparr>minAuthentic := 40, timeWindow := W24h\<rparr>)
      [sampleItem ''a'' ''1970-01-01T00:00:00.000Z'' 70 50,
       sampleItem ''b'' ''1970-01-02T00:00:00.000Z'' 50 50,
       sampleItem ''d'' ''1970-01-02T00:00:00.000Z'' 70 50] =
     [sampleItem ''a'' ''1970-01-01T00:00:00.000Z'' 70 50,
      sampleItem ''b'' ''1970-01-02T00:00:00.000Z'' 50 50,
      sampleItem ''d'' ''1970-01-02T00:00:00.000Z'' 70 50] \<and>
   subseq
     (filteredResults sampleGetTime (clockAt 86400005)
        (EMPTY_FILTERS\<lparr>minAuthentic := 60, minImpact := 10, timeWindow := W24h\<rparr>)
        [sampleItem ''a'' ''1970-01-01T00:00:00.000Z'' 70 50,
         sampleItem ''b'' ''1970-01-02T00:00:00.000Z'' 50 50,
         sampleItem ''d'' ''1970-01-02T00:00:00.000Z'' 70 50])
     (filteredResults sampleGetTime (clockAt 86400000)
        (EMPTY_FILTERS\<lparr>minAuthentic := 40, timeWindow := W24h\<rparr>)
        [sampleItem ''a'' ''1970-01-01T00:00:00.000Z'' 70 50,
         sampleItem ''b'' ''1970-01-02T00:00:00.000Z'' 50 50,
         sampleItem ''d'' ''1970-01-02T00:00:00.000Z'' 70 50])"
proof -
  let ?s = "EMPTY_FILTERS\<lparr>minAuthentic := 60, minImpact := 10, timeWindow := W24h\<rparr>"
  let ?l = "EMPTY_FILTERS\<lparr>minAuthentic := 40, timeWindow := W24h\<rparr>"
  let ?res = "[sampleItem ''a'' ''1970-01-01T00:00:00.000Z'' 70 50,
       sampleItem ''b'' ''1970-01-02T00:00:00.000Z'' 50 50,
       sampleItem ''d'' ''1970-01-02T00:00:00.000Z'' 70 50]"
  have strict: "filteredResults sampleGetTime (clockAt 86400005) ?s ?res =
      [sampleItem ''d'' ''1970-01-02T00:00:00.000Z'' 70 50]"
    by (simp add: filteredResults_def keepItem_def EMPTY_FILTERS_def sampleItem_def
        sampleGetTime_def clockAt_def windowLimit_def trim_def)
  have loose: "filteredResults sampleGetTime (clockAt 86400000) ?l ?res = ?res"
    by (simp add: filteredResults_def keepItem_def EMPTY_FILTERS_def sampleItem_def
        sampleGetTime_def clockAt_def windowLimit_def trim_def)
  have clocks: "timeWindow ?l = WAll \<or>
      (\<forall>i<length ?res. clockAt 86400000 i \<le> clockAt 86400005 i)"
    by (simp add: clockAt_def)
  have "subseq (filteredResults sampleGetTime (clockAt 86400005) ?s ?res)
      (filteredResults sampleGetTime (clockAt 86400000) ?l ?res)"
    using filteredResults_monotone [of ?s ?l ?res "clockAt 86400000" "clockAt 86400005"
        sampleGetTime] clocks
    by (simp add: EMPTY_FILTERS_def)
  with strict loose show ?thesis by simp
qed

lemma keepItem_EMPTY_FILTERS:
  "keepItem getTime now EMPTY_FILTERS item \<longleftrightarrow>
     0 \<le> authenticScore item \<and> 0 \<le> marketImpactScore item"
  by (auto simp: keepItem_def EMPTY_FILTERS_def trim_def)

text \<open>
  Claim C9: with the default filter state \<open>EMPTY_FILTERS\<close>, a result list whose items all
  have nonnegative \<open>authenticScore\<close> and \<open>marketImpactScore\<close> is returned unchanged, in the
  same order, whatever the dates of the items and the clock.
\<close>

theorem filteredResults_EMPTY_FILTERS:
  assumes "\<forall>item\<in>set res. 0 \<le> authenticScore item \<and> 0 \<le> marketImpactScore item"
  shows "filteredResults getTime clock EMPTY_FILTERS res = res"
proof -
  have "\<forall>p\<in>set (enumerate 0 res).
      (\<lambda>(i, item). keepItem getTime (clock i) EMPTY_FILTERS item) p"
    using assms by (auto simp: keepItem_EMPTY_FILTERS in_set_enumerate_eq)
  then have "filter (\<lambda>(i, item). keepItem getTime (clock i) EMPTY_FILTERS item)
      (enumerate 0 res) = enumerate 0 res"
    by (simp only: filter_True)
  then show ?thesis by (simp add: filteredResults_def)
qed

theorem filteredResults_EMPTY_FILTERS_witness:
  "filteredResults sampleGetTime (clockAt 86400000) EMPTY_FILTERS
      [sampleItem ''b'' ''1970-01-02T00:00:00.000Z'' 0 50,
       sampleItem ''a'' ''not a date'' 70 0] =
     [sampleItem ''b'' ''1970-01-02T00:00:00.000Z'' 0 50,
      sampleItem ''a'' ''not a date'' 70 0]"
proof -
  have scores: "\<forall>item\<in>set [sampleItem ''b'' ''1970-01-02T00:00:00.000Z'' 0 50,
       sampleItem ''a'' ''not a date'' 70 0].
       0 \<le> authenticScore item \<and> 0 \<le> marketImpactScore item"
    by (simp add: sampleItem_def)
  from filteredResults_EMPTY_FILTERS [OF scores] show ?thesis .
qed

lemma slice_from_start: "0 \<le> n \<Longrightarrow> slice 0 n xs = take (nat n) xs"
  by (auto simp: slice_def Let_def min_def)

text \<open>
  Claim C10: the newsletter preview has one row for each of the first 12 items of the
  filtered list, in the order of that list, and no other row: the items shown are
  \<open>take 12\<close> of the list, so at most 12 however long the list is.
\<close>

theorem previewRows_first_twelve:
  "map snd (previewRows filtered) = take 12 filtered \<and>
   length (previewRows filtered) = min 12 (length filtered) \<and>
   map fst (previewRows filtered) =
     map (\<lambda>item. ''newsletter-'' @ item_id item) (take 12 filtered)"
  by (simp add: previewRows_def slice_from_start comp_def)

theorem previewRows_first_twelve_witness:
  "map (item_id \<circ> snd)
     (previewRows (map (\<lambda>ident. sampleItem ident ''1970-01-01T00:00:00.000Z'' 50 50)
        [''01'', ''02'', ''03'', ''04'', ''05'', ''06'', ''07'', ''08'', ''09'', ''10'',
         ''11'', ''12'', ''13'', ''14''])) =
     [''01'', ''02'', ''03'', ''04'', ''05'', ''06'', ''07'', ''08'', ''09'', ''10'',
      ''11'', ''12'']"
  using previewRows_first_twelve
    [of "map (\<lambda>ident. sampleItem ident ''1970-01-01T00:00:00.000Z'' 50 50)
        [''01'', ''02'', ''03'', ''04'', ''05'', ''06'', ''07'', ''08'', ''09'', ''10'',
         ''11'', ''12'', ''13'', ''14'']"]
  by (simp add: sampleItem_def flip: map_map)

section \<open>The pipeline modelled from the specification\<close>

lemma set_insertRanked: "set (insertRanked x ys) = insert x (set ys)"
  by (induction ys) auto

lemma set_sortRanked: "set (sortRanked xs) = set xs"
  by (induction xs) (auto simp: sortRanked_def set_insertRanked)

lemma set_aggregator: "set (aggregator n xs) \<subseteq> set xs"
  using set_take_subset [of _ "sortRanked xs"] by (simp add: aggregator_def set_sortRanked)

lemma length_aggregator: "int (length (aggregator n xs)) \<le> max 0 n"
  by (auto simp: aggregator_def min_def)

lemma aggregator_nonpositive: "n \<le> 0 \<Longrightarrow> aggregator n xs = []"
  by (simp add: aggregator_def)

lemma normalizeRecord_inWindow:
  "normalizeRecord idOf w r = Some item \<Longrightarrow> inWindow w (news_publishedAt item)"
  by (auto simp: normalizeRecord_def split: option.splits if_splits)

lemma normalizer_inWindow:
  "c \<in> set (normalizer keyOf idOf w rs) \<Longrightarrow> inWindow w (news_publishedAt (snd c))"
  by (auto simp: normalizer_def List.map_filter_def dest: normalizeRecord_inWindow)

lemma publishedAt_mergeItems: "news_publishedAt (mergeItems a b) = news_publishedAt a"
  by (simp add: mergeItems_def)

lemma absorb_publishedAt:
  "m \<in> set (absorb c ms) \<Longrightarrow>
   \<exists>x\<in>insert c (set ms). news_publishedAt (snd m) = news_publishedAt (snd x)"
  by (induction ms) (auto simp: publishedAt_mergeItems split: if_splits)

lemma foldl_absorb_publishedAt:
  "m \<in> set (foldl (\<lambda>merged c. absorb c merged) acc cs) \<Longrightarrow>
   \<exists>x\<in>set acc \<union> set cs. news_publishedAt (snd m) = news_publishedAt (snd x)"
proof (induction cs arbitrary: acc)
  case Nil
  then show ?case by auto
next
  case (Cons c cs)
  from Cons.IH [OF Cons.prems [simplified]]
  obtain x where x: "x \<in> set (absorb c acc) \<union> set cs"
    and eq: "news_publishedAt (snd m) = news_publishedAt (snd x)" by blast
  from x show ?case
  proof
    assume "x \<in> set (absorb c acc)"
    from absorb_publishedAt [OF this] eq show ?thesis by auto
  next
    assume "x \<in> set cs"
    with eq show ?thesis by auto
  qed
qed

lemma deduplicator_publishedAt:
  "item \<in> set (deduplicator cs) \<Longrightarrow>
   \<exists>c\<in>set cs. news_publishedAt item = news_publishedAt (snd c)"
  using foldl_absorb_publishedAt [of _ "[]" cs] by (auto simp: deduplicator_def)

lemma publishedAt_scorer: "news_publishedAt (scorer f g item) = news_publishedAt item"
  by (simp add: scorer_def)

lemma gatherNewsSpec_Inr:
  assumes "gatherNewsSpec fetchAll keyOf idOf authenticity marketImpact now kws targets
             requested cap = Inr items"
  shows "items = aggregator cap (map (scorer authenticity marketImpact)
           (deduplicator (normalizer keyOf idOf (windowOf now requested)
              (fetchAll (filter (\<lambda>kw. length (trim (keyword kw)) > 0) kws)
                 (filter (\<lambda>target. length (trim (url target)) > 0) targets)
                 (windowOf now requested)))))"
  using assms by (auto simp: gatherNewsSpec_def Let_def split: option.splits)

text \<open>
  Claim C5: when the pipeline returns a result list, the list has at most \<open>maxItems\<close> items
  (none can have fewer than zero, so for a negative \<open>maxItems\<close> the bound is zero), and for
  every \<open>maxItems \<le> 0\<close> the list is empty.
\<close>

theorem gatherNews_bounded:
  assumes "gatherNewsSpec fetchAll keyOf idOf authenticity marketImpact now kws targets
             requested cap = Inr items"
  shows "int (length items) \<le> max 0 cap \<and> (cap \<le> 0 \<longrightarrow> items = [])"
  using gatherNewsSpec_Inr [OF assms] length_aggregator [of cap] aggregator_nonpositive [of cap]
  by simp

theorem gatherNews_bounded_witness:
  "sampleRun (Named P7d) 5 = Inr (projr (sampleRun (Named P7d) 5)) \<and>
   length (projr (sampleRun (Named P7d) 5)) = 2 \<and>
   sampleRun (Named P7d) 1 = Inr (projr (sampleRun (Named P7d) 1)) \<and>
   int (length (projr (sampleRun (Named P7d) 1))) \<le> 1 \<and>
   sampleRun (Named P7d) (- 3) = Inr []"
proof -
  have five: "length (projr (sampleRun (Named P7d) 5)) = 2"
    by code_simp
  have one: "sampleRun (Named P7d) 1 = Inr (projr (sampleRun (Named P7d) 1))"
    by code_simp
  have none: "sampleRun (Named P7d) (- 3) = Inr (projr (sampleRun (Named P7d) (- 3)))"
    by code_simp
  have all: "sampleRun (Named P7d) 5 = Inr (projr (sampleRun (Named P7d) 5))"
    by code_simp
  from gatherNews_bounded [OF one [unfolded sampleRun_def]]
  have "int (length (projr (sampleRun (Named P7d) 1))) \<le> 1"
    by (simp add: sampleRun_def)
  moreover from gatherNews_bounded [OF none [unfolded sampleRun_def]]
  have "projr (sampleRun (Named P7d) (- 3)) = []"
    by (simp add: sampleRun_def)
  ultimately show ?thesis using five one none all by simp
qed

text \<open>
  Claim C6: a custom time range with \<open>from > to\<close> is rejected: the pipeline returns a
  validation failure, never the empty result list; with a keyword row and a company target
  that are not blank, the failure is \<open>InvalidTimeRange\<close>.
\<close>

theorem gatherNews_rejects_inverted_range:
  assumes "b < a"
  shows "(\<exists>failure. gatherNewsSpec fetchAll keyOf idOf authenticity marketImpact now kws
             targets (Explicit a b) cap = Inl failure) \<and>
         gatherNewsSpec fetchAll keyOf idOf authenticity marketImpact now kws
             targets (Explicit a b) cap \<noteq> Inr [] \<and>
         (filter (\<lambda>kw. length (trim (keyword kw)) > 0) kws \<noteq> [] \<and>
          filter (\<lambda>target. length (trim (url target)) > 0) targets \<noteq> [] \<longrightarrow>
          gatherNewsSpec fetchAll keyOf idOf authenticity marketImpact now kws
             targets (Explicit a b) cap = Inl InvalidTimeRange)"
  using assms by (simp add: gatherNewsSpec_def Let_def validateRequest_def)

theorem gatherNews_rejects_inverted_range_witness:
  "sampleRun (Explicit 900000000 800000000) 5 = Inl InvalidTimeRange"
proof -
  have inverted: "(800000000::int) < 900000000" by simp
  have rows: "filter (\<lambda>kw. length (trim (keyword kw)) > 0) [sampleRow] \<noteq> []"
    by (simp add: sampleRow_def trim_def isWhiteSpace_def)
  have sites: "filter (\<lambda>target. length (trim (url target)) > 0) [sampleTarget] \<noteq> []"
    by (simp add: sampleTarget_def trim_def isWhiteSpace_def)
  from gatherNews_rejects_inverted_range [OF inverted, of sampleFetch raw_url raw_url
      sampleScore sampleScore 1000000000 "[sampleRow]" "[sampleTarget]" 5] rows sites
  show ?thesis unfolding sampleRun_def by blast
qed

text \<open>
  Claim C7: every item of the pipeline's result list has its \<open>publishedAt\<close> inside the window
  of the requested time range: between \<open>from\<close> and \<open>to\<close> of a custom range, or within the
  span of the preset before now.
\<close>

theorem gatherNews_time_filter:
  assumes "gatherNewsSpec fetchAll keyOf idOf authenticity marketImpact now kws targets
             requested cap = Inr items"
  shows "\<forall>item\<in>set items. inWindow (windowOf now requested) (news_publishedAt item)"
proof
  fix item assume mem: "item \<in> set items"
  let ?w = "windowOf now requested"
  let ?cands = "normalizer keyOf idOf ?w
      (fetchAll (filter (\<lambda>kw. length (trim (keyword kw)) > 0) kws)
         (filter (\<lambda>target. length (trim (url target)) > 0) targets) ?w)"
  from mem gatherNewsSpec_Inr [OF assms] set_aggregator
  have "item \<in> set (map (scorer authenticity marketImpact) (deduplicator ?cands))"
    by blast
  then obtain d where d: "d \<in> set (deduplicator ?cands)"
    and "item = scorer authenticity marketImpact d"
    by auto
  then have p: "news_publishedAt item = news_publishedAt d"
    by (simp add: publishedAt_scorer)
  from deduplicator_publishedAt [OF d] obtain c where "c \<in> set ?cands"
    and "news_publishedAt d = news_publishedAt (snd c)" by blast
  with p normalizer_inWindow show "inWindow ?w (news_publishedAt item)" by metis
qed

theorem gatherNews_time_filter_witness:
  "sampleRun (Named P7d) 5 = Inr (projr (sampleRun (Named P7d) 5)) \<and>
   map news_publishedAt (projr (sampleRun (Named P7d) 5)) = [900000000, 800000000] \<and>
   list_all (\<lambda>item. 395200000 \<le> news_publishedAt item \<and> news_publishedAt item \<le> 1000000000)
     (projr (sampleRun (Named P7d) 5))"
proof -
  have run: "sampleRun (Named P7d) 5 = Inr (projr (sampleRun (Named P7d) 5))"
    by code_simp
  have dates: "map news_publishedAt (projr (sampleRun (Named P7d) 5)) = [900000000, 800000000]"
    by code_simp
  from gatherNews_time_filter [OF run [unfolded sampleRun_def]]
  have "list_all (\<lambda>item. 395200000 \<le> news_publishedAt item \<and> news_publishedAt item \<le> 1000000000)
     (projr (sampleRun (Named P7d) 5))"
    by (simp add: sampleRun_def inWindow_def list_all_iff)
  with run dates show ?thesis by simp
qed

end
